theory Spec2Isabelle
  imports Main "HOL-Library.AList"
begin

section \<open>Python strings\<close>

text \<open>
  A Python \<open>str\<close> is modelled as a \<open>string\<close>, each \<open>char\<close> standing for one code point
  below 256. The operations below are the \<open>str\<close> methods that \<open>react_agent.py\<close> calls.
\<close>

definition py_isspace :: "char \<Rightarrow> bool" where
  \<comment> \<open>\<open>str.isspace\<close> on one code point below 256: TAB, LF, VT, FF, CR, FS, GS, RS, US, SPACE,
      NEL and NBSP.\<close>
  "py_isspace c = ((of_char c :: nat) \<in> {9, 10, 11, 12, 13, 28, 29, 30, 31, 32, 133, 160})"

definition py_strip :: "string \<Rightarrow> string" where
  \<comment> \<open>\<open>s.strip()\<close>\<close>
  "py_strip s = rev (dropWhile py_isspace (rev (dropWhile py_isspace s)))"

definition startswith :: "string \<Rightarrow> string \<Rightarrow> bool" where
  \<comment> \<open>\<open>s.startswith(p)\<close>\<close>
  "startswith s p = (take (length p) s = p)"

fun py_split_newline :: "string \<Rightarrow> string list" where
  \<comment> \<open>\<open>s.split("\n")\<close>\<close>
  "py_split_newline [] = [[]]"
| "py_split_newline (c # cs) =
     (if c = CHR 0x0A then [] # py_split_newline cs
      else (case py_split_newline cs of
              [] \<Rightarrow> [[c]]
            | l # ls \<Rightarrow> (c # l) # ls))"

function py_replace :: "string \<Rightarrow> string \<Rightarrow> string \<Rightarrow> string" where
  \<comment> \<open>\<open>s.replace(old, new)\<close>: every non-overlapping occurrence, from the left\<close>
  "py_replace [] old new = (if old = [] then new else [])"
| "py_replace (c # cs) old new =
     (if old = [] then new @ c # py_replace cs old new
      else if startswith (c # cs) old
           then new @ py_replace (drop (length old) (c # cs)) old new
      else c # py_replace cs old new)"
  by pat_completeness auto
termination
  by (relation "measure (\<lambda>(s, old, new). length s)") auto

fun py_in :: "string \<Rightarrow> string \<Rightarrow> bool" where
  \<comment> \<open>\<open>sub in s\<close>\<close>
  "py_in sub [] = (sub = [])"
| "py_in sub (c # cs) = (startswith (c # cs) sub \<or> py_in sub cs)"

fun py_split1 :: "string \<Rightarrow> string \<Rightarrow> string list" where
  \<comment> \<open>\<open>s.split(sep, 1)\<close> for a separator that is not empty: one element when \<open>sep\<close> does not
      occur, otherwise the text before and the text after its leftmost occurrence\<close>
  "py_split1 [] sep = [[]]"
| "py_split1 (c # cs) sep =
     (if startswith (c # cs) sep then [[], drop (length sep) (c # cs)]
      else (case py_split1 cs sep of
              [] \<Rightarrow> [[c]]
            | a # rest \<Rightarrow> (c # a) # rest))"

fun py_join :: "string \<Rightarrow> string list \<Rightarrow> string" where
  \<comment> \<open>\<open>sep.join(xs)\<close>\<close>
  "py_join sep [] = []"
| "py_join sep [x] = x"
| "py_join sep (x # y # ys) = x @ sep @ py_join sep (y # ys)"


section \<open>Values, errors and tools\<close>

text \<open>
  The values \<open>json.loads\<close> can return: \<open>None\<close>, \<open>bool\<close>, \<open>int\<close>, \<open>float\<close> (kept as the
  literal it was read from), \<open>str\<close>, \<open>list\<close> and \<open>dict\<close> (string keys, in insertion order).
\<close>

datatype pyval =
    PyNone
  | PyBool bool
  | PyInt int
  | PyFloat string
  | PyStr string
  | PyList "pyval list"
  | PyDict "(string \<times> pyval) list"

text \<open>
  \<open>json.loads\<close> belongs to the Python library, not to the repository, so the decoder is a
  parameter: \<open>None\<close> stands for \<open>json.JSONDecodeError\<close>, the exception it raises on a text
  that is not JSON. The limits of the interpreter (recursion depth, digits of an integer
  literal) are not modelled.
\<close>

type_synonym decoder = "string \<Rightarrow> pyval option"

datatype error = TypeError | IndexError | LibraryError

text \<open>
  A capability is the \<open>Callable\<close> of a \<open>Tool\<close>. Called with keyword arguments it either
  raises an \<open>Exception\<close> \<open>e\<close> (\<open>Inl (str(e))\<close>) or returns a result (\<open>Inr (str(result))\<close>).
  Capabilities read the clock and the network, so the first argument numbers the call:
  it stands for the state of the outside world at that moment. What is raised outside
  the class \<open>Exception\<close> (\<open>KeyboardInterrupt\<close>, \<open>SystemExit\<close>) is not modelled. The field
  \<open>function\<close> of the source is \<open>func\<close> here.
\<close>

type_synonym capability = "nat \<Rightarrow> (string \<times> pyval) list \<Rightarrow> string + string"

record tool =
  name :: string
  description :: string
  func :: capability

definition Tool :: "string \<Rightarrow> string \<Rightarrow> capability \<Rightarrow> tool" where
  \<comment> \<open>\<open>Tool.__init__\<close>\<close>
  "Tool n d f = \<lparr>name = n, description = d, func = f\<rparr>"

definition execute :: "tool \<Rightarrow> nat \<Rightarrow> (string \<times> pyval) list \<Rightarrow> string" where
  \<comment> \<open>the body of \<open>Tool.execute\<close>: \<open>try: return str(self.function(**kwargs))\<close>,
      \<open>except Exception as e: return f"Error executing {self.name}: {str(e)}"\<close>\<close>
  "execute self w kwargs =
     (case func self w kwargs of
        Inr result \<Rightarrow> result
      | Inl e \<Rightarrow> ''Error executing '' @ name self @ '': '' @ e)"

definition call_execute :: "tool \<Rightarrow> nat \<Rightarrow> pyval \<Rightarrow> error + string" where
  \<comment> \<open>the call \<open>tool.execute(**tool_input)\<close>: Python raises \<open>TypeError\<close> before the body of
      \<open>execute\<close> runs when the argument after \<open>**\<close> is not a mapping, and when a keyword is
      named \<open>self\<close>, the parameter already bound to the tool\<close>
  "call_execute t w tool_input =
     (case tool_input of
        PyDict kwargs \<Rightarrow>
          (if ''self'' \<in> fst ` set kwargs then Inl TypeError
           else Inr (execute t w kwargs))
      | _ \<Rightarrow> Inl TypeError)"


section \<open>The agent\<close>

record message =
  role :: string
  content :: string

record agent =
  api_key :: string
  model :: string
  tools :: "(string \<times> tool) list"
  conversation_history :: "message list"
  max_iterations :: int

text \<open>
  The four capabilities registered by \<open>_setup_tools\<close> evaluate an expression, read the
  clock and send HTTP requests; they are parameters of the model.
\<close>

record capabilities =
  calculator :: capability
  get_current_time :: capability
  get_weather :: capability
  search_arxiv :: capability

definition setup_tools :: "capabilities \<Rightarrow> agent \<Rightarrow> agent" where
  \<comment> \<open>\<open>_setup_tools\<close>: four assignments \<open>self.tools[name] = Tool(...)\<close>\<close>
  \<open>setup_tools caps self =
     (let self = self\<lparr>tools := AList.update ''calculator''
            (Tool ''calculator''
               ''Evaluates mathematical expressions. Input: expression (string). Example: calculator(expression='2 + 2 * 5')''
               (calculator caps)) (tools self)\<rparr>;
          self = self\<lparr>tools := AList.update ''get_current_time''
            (Tool ''get_current_time''
               ''Returns current date and time. Input: timezone (optional, defaults to UTC). Example: get_current_time(timezone='UTC')''
               (get_current_time caps)) (tools self)\<rparr>;
          self = self\<lparr>tools := AList.update ''get_weather''
            (Tool ''get_weather''
               ''Gets weather forecast from National Weather Service for US locations. Input: latitude (float), longitude (float). Example: get_weather(latitude=38.8894, longitude=-77.0352)''
               (get_weather caps)) (tools self)\<rparr>;
          self = self\<lparr>tools := AList.update ''search_arxiv''
            (Tool ''search_arxiv''
               ''Searches for research papers on arXiv. Input: query (string), max_results (optional, default 3). Example: search_arxiv(query='machine learning', max_results=3)''
               (search_arxiv caps)) (tools self)\<rparr>
      in self)\<close>

definition init_agent :: "capabilities \<Rightarrow> string \<Rightarrow> string \<Rightarrow> agent" where
  \<comment> \<open>\<open>ReActAgent.__init__\<close>\<close>
  "init_agent caps key mdl =
     setup_tools caps
       \<lparr>api_key = key, model = mdl, tools = [], conversation_history = [],
        max_iterations = 10\<rparr>"

definition default_model :: string where
  "default_model = ''openai/gpt-3.5-turbo''"

definition get_tool_descriptions :: "agent \<Rightarrow> string" where
  \<comment> \<open>\<open>_get_tool_descriptions\<close>\<close>
  "get_tool_descriptions self =
     py_join [CHR 0x0A]
       (map (\<lambda>(tool_name, t). ''- '' @ tool_name @ '': '' @ description t) (tools self))"



section \<open>The action parser\<close>

definition parse_line :: "decoder \<Rightarrow> string option \<times> pyval \<Rightarrow> string \<Rightarrow> string option \<times> pyval" where
  \<comment> \<open>the body of the \<open>for\<close> loop of \<open>_parse_action\<close>, on the pair
      \<open>(action, action_input)\<close>\<close>
  "parse_line json_loads st line =
     (case st of (action, action_input) \<Rightarrow>
        if startswith line ''Action:''
        then (Some (py_strip (py_replace line ''Action:'' [])), action_input)
        else if startswith line ''Action Input:''
        then (let input_str = py_strip (py_replace line ''Action Input:'' [])
              in case json_loads input_str of
                   Some v \<Rightarrow> (action, v)
                 | None \<Rightarrow> (action, PyDict [(''input'', PyStr input_str)]))
        else (action, action_input))"

definition parse_action :: "decoder \<Rightarrow> string \<Rightarrow> string option \<times> pyval" where
  \<comment> \<open>\<open>_parse_action\<close>; \<open>self\<close> is not used by the method\<close>
  "parse_action json_loads llm_response =
     foldl (parse_line json_loads) (None, PyNone)
       (py_split_newline (py_strip llm_response))"


section \<open>The action parser and the other exceptions of the decoder\<close>








section \<open>The loop\<close>

text \<open>
  \<open>_call_llm\<close> sends the transcript to the completion endpoint and returns a \<open>str\<close>: the
  reply, or a text that reports the failure. It is a parameter; its first argument is
  the number of completion calls made before this one.
\<close>

type_synonym completion = "nat \<Rightarrow> message list \<Rightarrow> string"

definition system_prompt :: "agent \<Rightarrow> string" where
  \<open>system_prompt self =
     ''You are a helpful ReAct agent.\<newline>\<newline>Available tools:\<newline>''
     @ get_tool_descriptions self
     @ ''\<newline>\<newline>If you mention a tool or say you can use a tool, you MUST immediately use it by emitting an Action and Action Input.\<newline>Never describe tool usage without performing it.\<newline>\<newline>To use a tool, respond with:\<newline>Thought: [your reasoning about what to do next]\<newline>Action: [tool_name]\<newline>Action Input: {"param_name": "param_value"}\<newline>\<newline>When you have enough information to answer the question, respond with:\<newline>Thought: [your reasoning]\<newline>Final Answer: [your complete answer to the user's question]\<newline>\<newline>Always think step by step and use tools when you need information.''\<close>

definition exhausted :: string where
  "exhausted = ''I couldn't complete the task within the iteration limit.''"

definition not_found :: "string \<Rightarrow> string" where
  \<comment> \<open>\<open>f"Tool '{tool_name}' not found."\<close>\<close>
  "not_found tool_name = ''Tool '' @ [CHR 0x27] @ tool_name @ [CHR 0x27] @ '' not found.''"

definition observation_message :: "string \<Rightarrow> message" where
  \<comment> \<open>\<open>{"role": "user", "content": f"Observation: {observation}"}\<close>\<close>
  "observation_message observation = \<lparr>role = ''user'', content = ''Observation: '' @ observation\<rparr>"

text \<open>
  The completion calls of a run are counted where they are made: \<open>call_llm_counted\<close> is the
  call \<open>self._call_llm(messages)\<close>, numbered by the calls made before it, together with the
  count after it.
\<close>

definition call_llm_counted :: "completion \<Rightarrow> nat \<Rightarrow> message list \<Rightarrow> string \<times> nat" where
  "call_llm_counted call_llm calls messages = (call_llm calls messages, Suc calls)"

text \<open>
  One pass of the \<open>while\<close> loop of \<open>run\<close> ends in a \<open>return\<close>, in an exception that leaves
  \<open>run\<close>, or at the bottom of the body (also through \<open>continue\<close>) after \<open>steps += 1\<close>. Each
  outcome carries the transcript \<open>messages\<close> as the pass leaves it and the count of completion
  calls made so far.
\<close>

datatype pass =
    Return "message list" nat string
  | Raise "message list" nat error
  | Continue "message list" nat

definition loop_pass :: "completion \<Rightarrow> decoder \<Rightarrow> agent \<Rightarrow> nat \<Rightarrow> message list \<Rightarrow> pass" where
  "loop_pass call_llm json_loads self calls messages =
     (case call_llm_counted call_llm calls messages of (response_text, n) \<Rightarrow>
      let messages = messages @ [\<lparr>role = ''assistant'', content = response_text\<rparr>]
      in if py_in ''Final Answer:'' response_text
         then (case py_split1 response_text ''Final Answer:'' of
                 _ # after # _ \<Rightarrow> Return messages n (py_strip after)
               | _ \<Rightarrow> Raise messages n IndexError)
         else (case parse_action json_loads response_text of
                 (None, _) \<Rightarrow> Return messages n response_text
               | (Some tool_name, tool_input) \<Rightarrow>
                   if tool_name = [] then Return messages n response_text
                   else (let tool_input = (if tool_input = PyNone then PyDict [] else tool_input)
                         in case map_of (tools self) tool_name of
                              None \<Rightarrow>
                                Continue (messages @ [observation_message (not_found tool_name)]) n
                            | Some t \<Rightarrow>
                                (case call_execute t calls tool_input of
                                   Inl e \<Rightarrow> Raise messages n e
                                 | Inr observation \<Rightarrow>
                                     Continue (messages @ [observation_message observation]) n))))"

record run_result =
  outcome :: "error + string"
  transcript :: "message list"
  completion_calls :: nat

function run_loop :: "completion \<Rightarrow> decoder \<Rightarrow> agent \<Rightarrow> message list \<Rightarrow> int \<Rightarrow> nat \<Rightarrow> run_result" where
  "run_loop call_llm json_loads self messages steps calls =
     (if steps < max_iterations self
      then (case loop_pass call_llm json_loads self calls messages of
              Return ms n answer \<Rightarrow> \<lparr>outcome = Inr answer, transcript = ms, completion_calls = n\<rparr>
            | Raise ms n e \<Rightarrow> \<lparr>outcome = Inl e, transcript = ms, completion_calls = n\<rparr>
            | Continue ms n \<Rightarrow> run_loop call_llm json_loads self ms (steps + 1) n)
      else \<lparr>outcome = Inr exhausted, transcript = messages, completion_calls = calls\<rparr>)"
  by pat_completeness auto
termination
  by (relation "measure (\<lambda>(call_llm, json_loads, self, messages, steps, calls).
                  nat (max_iterations self - steps))") auto

definition initial_messages :: "agent \<Rightarrow> string \<Rightarrow> message list" where
  "initial_messages self user_query =
     [] @ [\<lparr>role = ''system'', content = system_prompt self\<rparr>]
        @ [\<lparr>role = ''user'', content = user_query\<rparr>]"

definition run :: "completion \<Rightarrow> decoder \<Rightarrow> agent \<Rightarrow> string \<Rightarrow> run_result \<times> agent" where
  \<comment> \<open>\<open>run\<close> for capabilities that leave the agent alone: the result, and the agent\<close>
  "run call_llm json_loads self user_query =
     (run_loop call_llm json_loads self (initial_messages self user_query) 0 0, self)"

section \<open>The loop with the agent as state\<close>













section \<open>Stubs for the examples\<close>

text \<open>
  The examples instantiate the parameters. \<open>sample_loads\<close> agrees with \<open>json.loads\<close> on the
  texts the examples decode: four JSON texts, and texts that are not JSON;
  \<open>sample_loads_exn\<close> adds the \<open>ValueError\<close> on more than 4300 digits. The stub effect
  writes the field \<open>model\<close> and leaves the other fields as they are. The stub
  capabilities raise an exception with a fixed message whatever their arguments, as the
  calculator of the repository does on \<open>1/0\<close> (\<open>ZeroDivisionError\<close>, message
  \<open>division by zero\<close>, is not among the exceptions it handles itself).
\<close>

definition sample_loads :: decoder where
  \<open>sample_loads s =
     (if s = ''5'' then Some (PyInt 5)
      else if s = ''{"x": 1}'' then Some (PyDict [(''x'', PyInt 1)])
      else if s = ''{"self": 1}'' then Some (PyDict [(''self'', PyInt 1)])
      else if s = ''{"expression": "1/0"}'' then Some (PyDict [(''expression'', PyStr ''1/0'')])
      else None)\<close>


definition stub_capability :: "string \<Rightarrow> capability" where
  "stub_capability e w kwargs = Inl e"

definition stub_capabilities :: capabilities where
  "stub_capabilities =
     \<lparr>calculator = stub_capability ''division by zero'',
      get_current_time = stub_capability ''no clock'',
      get_weather = stub_capability ''no network'',
      search_arxiv = stub_capability ''no network''\<rparr>"

definition stub_agent :: agent where
  "stub_agent = init_agent stub_capabilities ''key'' default_model"

definition stub_teleport :: completion where
  \<open>stub_teleport n messages = ''Action: teleport\<newline>Action Input: {"x": 1}''\<close>

definition stub_final :: completion where
  "stub_final n messages = ''Action: calculator\<newline>Final Answer: 42''"


definition stub_divide :: completion where
  \<open>stub_divide n messages = ''Action: calculator\<newline>Action Input: {"expression": "1/0"}''\<close>

definition stub_scalar :: completion where
  "stub_scalar n messages = ''Action: calculator\<newline>Action Input: 5''"

definition stub_self :: completion where
  \<open>stub_self n messages = ''Action: calculator\<newline>Action Input: {"self": 1}''\<close>



section \<open>Lemmas on strings and on the parser\<close>

declare run_loop.simps [simp del]

text \<open>
  \<open>startswith\<close> and \<open>py_in\<close> in terms of concatenation, the result of \<open>py_split1\<close> at the
  leftmost occurrence of the separator, and what the fold of \<open>parse_line\<close> over the lines
  keeps of the last line that begins with a marker.
\<close>

lemma startswith_append: "startswith s p \<longleftrightarrow> (\<exists>post. s = p @ post)"
  unfolding startswith_def
  by (metis append_eq_conv_conj append_take_drop_id)

lemma action_input_not_action:
  "startswith l ''Action Input:'' \<Longrightarrow> \<not> startswith l ''Action:''"
  by (auto simp: startswith_append)

lemma parse_line_fst_other:
  "\<not> startswith l ''Action:'' \<Longrightarrow> fst (parse_line jl st l) = fst st"
  by (simp add: parse_line_def Let_def split: prod.splits option.splits)

lemma parse_line_snd_other:
  "\<not> startswith l ''Action Input:'' \<Longrightarrow> snd (parse_line jl st l) = snd st"
  by (simp add: parse_line_def Let_def split: prod.splits option.splits)

lemma parse_line_fst_action:
  "startswith l ''Action:'' \<Longrightarrow>
     fst (parse_line jl st l) = Some (py_strip (py_replace l ''Action:'' []))"
  by (simp add: parse_line_def split: prod.splits)

lemma parse_line_snd_input:
  "startswith l ''Action Input:'' \<Longrightarrow>
     snd (parse_line jl st l) =
       (case jl (py_strip (py_replace l ''Action Input:'' [])) of
          Some v \<Rightarrow> v
        | None \<Rightarrow> PyDict [(''input'', PyStr (py_strip (py_replace l ''Action Input:'' [])))])"
  using action_input_not_action [of l]
  by (simp add: parse_line_def Let_def split: prod.splits option.splits)

lemma foldl_parse_fst_other:
  "\<forall>l \<in> set ls. \<not> startswith l ''Action:'' \<Longrightarrow> fst (foldl (parse_line jl) st ls) = fst st"
  by (induction ls arbitrary: st) (simp_all add: parse_line_fst_other)

lemma foldl_parse_snd_other:
  "\<forall>l \<in> set ls. \<not> startswith l ''Action Input:'' \<Longrightarrow> snd (foldl (parse_line jl) st ls) = snd st"
  by (induction ls arbitrary: st) (simp_all add: parse_line_snd_other)

lemma foldl_parse_fst_last:
  assumes "startswith line ''Action:''" and "\<forall>l \<in> set rest. \<not> startswith l ''Action:''"
  shows "fst (foldl (parse_line jl) st (before @ line # rest)) =
           Some (py_strip (py_replace line ''Action:'' []))"
  using assms by (simp add: foldl_parse_fst_other parse_line_fst_action)

lemma foldl_parse_snd_last:
  assumes "startswith line ''Action Input:''" and "\<forall>l \<in> set rest. \<not> startswith l ''Action Input:''"
  shows "snd (foldl (parse_line jl) st (before @ line # rest)) =
       (case jl (py_strip (py_replace line ''Action Input:'' [])) of
          Some v \<Rightarrow> v
        | None \<Rightarrow> PyDict [(''input'', PyStr (py_strip (py_replace line ''Action Input:'' [])))])"
  using assms by (simp add: foldl_parse_snd_other parse_line_snd_input)

lemma parse_action_name_None_iff:
  "fst (parse_action jl text) = None \<longleftrightarrow>
     (\<forall>l \<in> set (py_split_newline (py_strip text)). \<not> startswith l ''Action:'')"
proof
  assume none: "fst (parse_action jl text) = None"
  show "\<forall>l \<in> set (py_split_newline (py_strip text)). \<not> startswith l ''Action:''"
  proof (rule ccontr)
    assume "\<not> ?thesis"
    then have "\<exists>l \<in> set (py_split_newline (py_strip text)). startswith l ''Action:''" by blast
    then obtain before line rest where
      "py_split_newline (py_strip text) = before @ line # rest"
      "startswith line ''Action:''" "\<forall>l \<in> set rest. \<not> startswith l ''Action:''"
      using split_list_last_prop [of "py_split_newline (py_strip text)" "\<lambda>l. startswith l ''Action:''"]
      by blast
    then have "fst (parse_action jl text) \<noteq> None"
      unfolding parse_action_def by (simp add: foldl_parse_fst_last del: foldl_append)
    with none show False by simp
  qed
next
  assume "\<forall>l \<in> set (py_split_newline (py_strip text)). \<not> startswith l ''Action:''"
  then show "fst (parse_action jl text) = None"
    unfolding parse_action_def by (simp add: foldl_parse_fst_other)
qed

lemma py_in_iff: "py_in sub s \<longleftrightarrow> (\<exists>pre post. s = pre @ sub @ post)"
proof (induction s)
  case Nil
  then show ?case by auto
next
  case (Cons c cs)
  show ?case
  proof
    assume "py_in sub (c # cs)"
    then consider "startswith (c # cs) sub" | "py_in sub cs" by auto
    then show "\<exists>pre post. c # cs = pre @ sub @ post"
    proof cases
      case 1
      then obtain post where "c # cs = sub @ post" by (auto simp: startswith_append)
      then have "c # cs = [] @ sub @ post" by simp
      then show ?thesis by blast
    next
      case 2
      with Cons obtain pre post where "cs = pre @ sub @ post" by blast
      then have "c # cs = (c # pre) @ sub @ post" by simp
      then show ?thesis by blast
    qed
  next
    assume "\<exists>pre post. c # cs = pre @ sub @ post"
    then obtain pre post where eq: "c # cs = pre @ sub @ post" by blast
    show "py_in sub (c # cs)"
    proof (cases pre)
      case Nil
      with eq have "startswith (c # cs) sub" by (auto simp: startswith_append)
      then show ?thesis by simp
    next
      case (Cons d pre')
      with eq have "cs = pre' @ sub @ post" by simp
      with Cons.IH have "py_in sub cs" by blast
      then show ?thesis by simp
    qed
  qed
qed

lemma take_append_le: "n \<le> length xs \<Longrightarrow> take n (xs @ ys) = take n xs"
  by simp

lemma py_split1_first:
  assumes "sep \<noteq> []" and "\<not> py_in sep (pre @ butlast sep)"
  shows "py_split1 (pre @ sep @ post) sep = [pre, post]"
  using assms
proof (induction pre)
  case Nil
  then obtain c cs where "sep = c # cs" by (cases sep) auto
  then show ?case by (simp add: startswith_def)
next
  case (Cons c pre)
  have len: "length sep \<le> length ((c # pre) @ butlast sep)" by simp
  have split: "(c # pre) @ sep @ post = ((c # pre) @ butlast sep) @ (last sep # post)"
    using Cons.prems(1) by simp
  have "take (length sep) ((c # pre) @ sep @ post) = take (length sep) ((c # pre) @ butlast sep)"
    unfolding split using len by (rule take_append_le)
  moreover from Cons.prems(2) have "\<not> startswith ((c # pre) @ butlast sep) sep" by simp
  ultimately have ns: "\<not> startswith (c # pre @ sep @ post) sep" by (simp add: startswith_def)
  from Cons.prems(2) have "\<not> py_in sep (pre @ butlast sep)" by simp
  with Cons.IH Cons.prems(1) have "py_split1 (pre @ sep @ post) sep = [pre, post]" by blast
  with ns show ?case by simp
qed


section \<open>Lemmas on the parser over a raising decoder\<close>













section \<open>Lemmas on the loop\<close>

lemma butlast_final: "butlast ''Final Answer:'' = ''Final Answer''"
  by simp

lemma loop_pass_final:
  assumes "call_llm calls messages = pre @ ''Final Answer:'' @ post"
      and "\<not> py_in ''Final Answer:'' (pre @ ''Final Answer'')"
  shows "loop_pass call_llm jl self calls messages =
           Return (messages @ [\<lparr>role = ''assistant'', content = call_llm calls messages\<rparr>])
             (Suc calls) (py_strip post)"
proof -
  have "py_in ''Final Answer:'' (call_llm calls messages)"
    unfolding py_in_iff using assms(1) by blast
  moreover have "py_split1 (call_llm calls messages) ''Final Answer:'' = [pre, post]"
    unfolding assms(1) using assms(2) by (intro py_split1_first) simp_all
  ultimately show ?thesis
    by (simp add: loop_pass_def call_llm_counted_def Let_def)
qed


lemma loop_pass_unknown_tool:
  assumes "\<not> py_in ''Final Answer:'' (call_llm calls messages)"
      and "fst (parse_action jl (call_llm calls messages)) = Some tool_name"
      and "tool_name \<noteq> []"
      and "map_of (tools self) tool_name = None"
  shows "loop_pass call_llm jl self calls messages =
           Continue (messages @ [\<lparr>role = ''assistant'', content = call_llm calls messages\<rparr>,
                                 observation_message (not_found tool_name)]) (Suc calls)"
  using assms
  by (cases "parse_action jl (call_llm calls messages)")
     (simp add: loop_pass_def call_llm_counted_def Let_def)

lemma loop_pass_tool:
  assumes "\<not> py_in ''Final Answer:'' (call_llm calls messages)"
      and "parse_action jl (call_llm calls messages) = (Some tool_name, tool_input)"
      and "tool_name \<noteq> []"
      and "map_of (tools self) tool_name = Some t"
      and "tool_input = PyNone \<and> kwargs = [] \<or> tool_input = PyDict kwargs"
      and "''self'' \<notin> fst ` set kwargs"
  shows "loop_pass call_llm jl self calls messages =
           Continue (messages @ [\<lparr>role = ''assistant'', content = call_llm calls messages\<rparr>,
                                 observation_message (execute t calls kwargs)]) (Suc calls)"
  using assms by (auto simp add: loop_pass_def call_llm_counted_def Let_def call_execute_def)

text \<open>
  Whatever the answer, a pass appends the answer of the endpoint to the transcript as an
  assistant message, then at most one observation, and counts one completion call.
\<close>

lemma loop_pass_shape:
  "(\<exists>answer. loop_pass call_llm jl self calls messages =
       Return (messages @ [\<lparr>role = ''assistant'', content = call_llm calls messages\<rparr>])
         (Suc calls) answer) \<or>
   (\<exists>e. loop_pass call_llm jl self calls messages =
       Raise (messages @ [\<lparr>role = ''assistant'', content = call_llm calls messages\<rparr>])
         (Suc calls) e) \<or>
   (\<exists>observation. loop_pass call_llm jl self calls messages =
       Continue (messages @ [\<lparr>role = ''assistant'', content = call_llm calls messages\<rparr>,
                             observation_message observation]) (Suc calls))"
proof -
  let ?r = "call_llm calls messages"
  let ?ms = "messages @ [\<lparr>role = ''assistant'', content = ?r\<rparr>]"
  show ?thesis
  proof (cases "py_in ''Final Answer:'' ?r")
    case True
    then have "loop_pass call_llm jl self calls messages =
        (case py_split1 ?r ''Final Answer:'' of
           _ # after # _ \<Rightarrow> Return ?ms (Suc calls) (py_strip after)
         | _ \<Rightarrow> Raise ?ms (Suc calls) IndexError)"
      by (simp add: loop_pass_def call_llm_counted_def Let_def)
    then show ?thesis by (simp split: list.splits)
  next
    case nf: False
    obtain a b where pa: "parse_action jl ?r = (a, b)" by (cases "parse_action jl ?r")
    show ?thesis
    proof (cases a)
      case None
      with nf pa show ?thesis by (simp add: loop_pass_def call_llm_counted_def Let_def)
    next
      case (Some tool_name)
      show ?thesis
      proof (cases "tool_name = []")
        case True
        with nf pa Some show ?thesis by (simp add: loop_pass_def call_llm_counted_def Let_def)
      next
        case ne: False
        show ?thesis
        proof (cases "map_of (tools self) tool_name")
          case None
          with nf pa Some ne have "loop_pass call_llm jl self calls messages =
              Continue (?ms @ [observation_message (not_found tool_name)]) (Suc calls)"
            by (simp add: loop_pass_def call_llm_counted_def Let_def)
          then show ?thesis by auto
        next
          case (Some t)
          let ?inp = "if b = PyNone then PyDict [] else b"
          show ?thesis
          proof (cases "call_execute t calls ?inp")
            case (Inl e)
            with nf pa \<open>a = Some tool_name\<close> ne Some
            have "loop_pass call_llm jl self calls messages = Raise ?ms (Suc calls) e"
              by (simp add: loop_pass_def call_llm_counted_def Let_def)
            then show ?thesis by simp
          next
            case (Inr observation)
            with nf pa \<open>a = Some tool_name\<close> ne Some
            have "loop_pass call_llm jl self calls messages =
                Continue (?ms @ [observation_message observation]) (Suc calls)"
              by (simp add: loop_pass_def call_llm_counted_def Let_def)
            then show ?thesis by auto
          qed
        qed
      qed
    qed
  qed
qed

lemma run_loop_calls_le:
  "int (completion_calls (run_loop call_llm jl self messages steps calls))
     \<le> int calls + max 0 (max_iterations self - steps)"
proof (induction call_llm jl self messages steps calls rule: run_loop.induct)
  case (1 call_llm jl self messages steps calls)
  show ?case
  proof (cases "steps < max_iterations self")
    case False
    then show ?thesis by (subst run_loop.simps) simp
  next
    case True
    from loop_pass_shape [of call_llm jl self calls messages]
    consider (ret) ms answer where "loop_pass call_llm jl self calls messages = Return ms (Suc calls) answer"
      | (exn) ms e where "loop_pass call_llm jl self calls messages = Raise ms (Suc calls) e"
      | (cont) ms where "loop_pass call_llm jl self calls messages = Continue ms (Suc calls)"
      by blast
    then show ?thesis
    proof cases
      case ret
      with True show ?thesis by (subst run_loop.simps) simp
    next
      case exn
      with True show ?thesis by (subst run_loop.simps) simp
    next
      case cont
      with True "1.IH" [OF True cont] show ?thesis
        by (subst run_loop.simps) simp
    qed
  qed
qed


text \<open>
  When a pass continues on the last unit of the budget, the loop ends exhausted with the
  transcript and the count of that pass.
\<close>

lemma run_loop_last_unit:
  assumes "steps + 1 = max_iterations self"
      and "loop_pass call_llm jl self calls messages = Continue ms n"
  shows "run_loop call_llm jl self messages steps calls =
           \<lparr>outcome = Inr exhausted, transcript = ms, completion_calls = n\<rparr>"
proof -
  from assms(1) have "steps < max_iterations self" by simp
  with assms(2) have "run_loop call_llm jl self messages steps calls =
      run_loop call_llm jl self ms (steps + 1) n"
    by (subst run_loop.simps) simp
  also from assms(1) have "\<dots> = \<lparr>outcome = Inr exhausted, transcript = ms, completion_calls = n\<rparr>"
    by (subst run_loop.simps) simp
  finally show ?thesis .
qed

text \<open>
  The transcript of a run extends the one it started from. The completion calls it counts
  are the assistant messages it appended, and each of these is the answer of the endpoint
  to the transcript before it, numbered by the answers before it.
\<close>

lemma run_loop_replies:
  "\<exists>ext. transcript (run_loop call_llm jl self messages steps calls) = messages @ ext \<and>
         completion_calls (run_loop call_llm jl self messages steps calls)
           = calls + length (filter (\<lambda>m. role m = ''assistant'') ext) \<and>
         (\<forall>i < length ext. role (ext ! i) = ''assistant'' \<longrightarrow>
            content (ext ! i) =
              call_llm (calls + length (filter (\<lambda>m. role m = ''assistant'') (take i ext)))
                (messages @ take i ext))"
proof (induction call_llm jl self messages steps calls rule: run_loop.induct)
  case (1 call_llm jl self messages steps calls)
  let ?a = "\<lparr>role = ''assistant'', content = call_llm calls messages\<rparr>"
  let ?A = "\<lambda>m. role m = ''assistant''"
  show ?case
  proof (cases "steps < max_iterations self")
    case False
    then have "run_loop call_llm jl self messages steps calls =
        \<lparr>outcome = Inr exhausted, transcript = messages, completion_calls = calls\<rparr>"
      by (subst run_loop.simps) simp
    then show ?thesis by (intro exI [of _ "[]"]) simp
  next
    case True
    from loop_pass_shape [of call_llm jl self calls messages]
    consider (ret) answer where
        "loop_pass call_llm jl self calls messages = Return (messages @ [?a]) (Suc calls) answer"
      | (exn) e where
        "loop_pass call_llm jl self calls messages = Raise (messages @ [?a]) (Suc calls) e"
      | (cont) observation where
        "loop_pass call_llm jl self calls messages =
           Continue (messages @ [?a, observation_message observation]) (Suc calls)"
      by blast
    then show ?thesis
    proof cases
      case ret
      with True have "run_loop call_llm jl self messages steps calls =
          \<lparr>outcome = Inr answer, transcript = messages @ [?a], completion_calls = Suc calls\<rparr>"
        by (subst run_loop.simps) simp
      then show ?thesis by (intro exI [of _ "[?a]"]) simp
    next
      case exn
      with True have "run_loop call_llm jl self messages steps calls =
          \<lparr>outcome = Inl e, transcript = messages @ [?a], completion_calls = Suc calls\<rparr>"
        by (subst run_loop.simps) simp
      then show ?thesis by (intro exI [of _ "[?a]"]) simp
    next
      case cont
      let ?o = "observation_message observation"
      let ?ms = "messages @ [?a, ?o]"
      from True cont have eq: "run_loop call_llm jl self messages steps calls =
          run_loop call_llm jl self ?ms (steps + 1) (Suc calls)"
        by (subst run_loop.simps) simp
      from "1.IH" [OF True cont] obtain ext where
        tr: "transcript (run_loop call_llm jl self ?ms (steps + 1) (Suc calls)) = ?ms @ ext"
        and cc: "completion_calls (run_loop call_llm jl self ?ms (steps + 1) (Suc calls))
                   = Suc calls + length (filter ?A ext)"
        and rp: "\<forall>i < length ext. role (ext ! i) = ''assistant'' \<longrightarrow>
                   content (ext ! i) =
                     call_llm (Suc calls + length (filter ?A (take i ext))) (?ms @ take i ext)"
        by blast
      have o: "role ?o \<noteq> ''assistant''" by (simp add: observation_message_def)
      have "\<forall>i < length ([?a, ?o] @ ext). role (([?a, ?o] @ ext) ! i) = ''assistant'' \<longrightarrow>
              content (([?a, ?o] @ ext) ! i) =
                call_llm (calls + length (filter ?A (take i ([?a, ?o] @ ext))))
                  (messages @ take i ([?a, ?o] @ ext))"
      proof (intro allI impI)
        fix i
        assume i: "i < length ([?a, ?o] @ ext)"
          and r: "role (([?a, ?o] @ ext) ! i) = ''assistant''"
        consider "i = 0" | "i = 1" | "2 \<le> i" by linarith
        then show "content (([?a, ?o] @ ext) ! i) =
                call_llm (calls + length (filter ?A (take i ([?a, ?o] @ ext))))
                  (messages @ take i ([?a, ?o] @ ext))"
        proof cases
          case 1
          then show ?thesis by simp
        next
          case 2
          with r o show ?thesis by simp
        next
          case 3
          then obtain j where j: "i = Suc (Suc j)" by (cases i; cases "i - 1") auto
          with i have jl: "j < length ext" by simp
          from r j have "role (ext ! j) = ''assistant''" by simp
          with rp jl have "content (ext ! j) =
              call_llm (Suc calls + length (filter ?A (take j ext))) (?ms @ take j ext)"
            by blast
          with j o show ?thesis by simp
        qed
      qed
      with tr cc eq o show ?thesis
        by (intro exI [of _ "[?a, ?o] @ ext"]) simp
    qed
  qed
qed

lemma run_loop_first_reply:
  assumes "steps < max_iterations self"
  shows "\<exists>ext. transcript (run_loop call_llm jl self messages steps calls) =
                 messages @ \<lparr>role = ''assistant'', content = call_llm calls messages\<rparr> # ext \<and>
               Suc calls \<le> completion_calls (run_loop call_llm jl self messages steps calls)"
proof -
  let ?a = "\<lparr>role = ''assistant'', content = call_llm calls messages\<rparr>"
  from loop_pass_shape [of call_llm jl self calls messages]
  consider (ret) answer where
      "loop_pass call_llm jl self calls messages = Return (messages @ [?a]) (Suc calls) answer"
    | (exn) e where
      "loop_pass call_llm jl self calls messages = Raise (messages @ [?a]) (Suc calls) e"
    | (cont) observation where
      "loop_pass call_llm jl self calls messages =
         Continue (messages @ [?a, observation_message observation]) (Suc calls)"
    by blast
  then show ?thesis
  proof cases
    case ret
    with assms show ?thesis by (subst (1 2) run_loop.simps) simp
  next
    case exn
    with assms show ?thesis by (subst (1 2) run_loop.simps) simp
  next
    case cont
    let ?ms = "messages @ [?a, observation_message observation]"
    from assms cont have eq: "run_loop call_llm jl self messages steps calls =
        run_loop call_llm jl self ?ms (steps + 1) (Suc calls)"
      by (subst run_loop.simps) simp
    from run_loop_replies [of call_llm jl self ?ms "steps + 1" "Suc calls"] obtain ext where
      "transcript (run_loop call_llm jl self ?ms (steps + 1) (Suc calls)) = ?ms @ ext"
      "completion_calls (run_loop call_llm jl self ?ms (steps + 1) (Suc calls))
         = Suc calls + length (filter (\<lambda>m. role m = ''assistant'') ext)"
      by blast
    with eq show ?thesis by simp
  qed
qed


section \<open>Lemmas on the loop with the agent as state\<close>








section \<open>The claims\<close>

lemma stub_agent_max: "max_iterations stub_agent = 10"
  by (simp add: stub_agent_def init_agent_def setup_tools_def Let_def)

lemma stub_agent_tools_teleport: "map_of (tools stub_agent) ''teleport'' = None"
  by (simp add: stub_agent_def init_agent_def setup_tools_def Let_def Tool_def)

lemma stub_agent_calculator:
  "map_of (tools stub_agent) ''calculator'' =
     Some (Tool ''calculator''
       ''Evaluates mathematical expressions. Input: expression (string). Example: calculator(expression='2 + 2 * 5')''
       (stub_capability ''division by zero''))"
  by (simp add: stub_agent_def init_agent_def setup_tools_def Let_def stub_capabilities_def)



text \<open>
  C3. When the answer of the completion endpoint contains \<open>Final Answer:\<close>, the pass returns
  what follows the first occurrence of the marker, stripped of leading and trailing
  whitespace, and the loop ends there, after this one completion call. The first
  occurrence is written out: the answer is \<open>pre @ ''Final Answer:'' @ post\<close> and the marker
  does not occur earlier, that is, not inside \<open>pre @ ''Final Answer''\<close>. Nothing is assumed
  about \<open>Action:\<close> lines, so an answer that has both is final. \<open>run\<close> is this loop
  started on the two initial messages with \<open>steps = 0\<close>.
\<close>

theorem final_answer_ends_run:
  assumes "steps < max_iterations self"
      and "call_llm calls messages = pre @ ''Final Answer:'' @ post"
      and "\<nexists>p r. pre @ ''Final Answer'' = p @ ''Final Answer:'' @ r"
  shows "run_loop call_llm json_loads self messages steps calls =
           \<lparr>outcome = Inr (py_strip post),
            transcript = messages @ [\<lparr>role = ''assistant'', content = pre @ ''Final Answer:'' @ post\<rparr>],
            completion_calls = Suc calls\<rparr>"
proof -
  from assms(3) have first: "\<not> py_in ''Final Answer:'' (pre @ ''Final Answer'')"
    by (simp only: py_in_iff not_False_eq_True)
  have "loop_pass call_llm json_loads self calls messages =
          Return (messages @ [\<lparr>role = ''assistant'', content = call_llm calls messages\<rparr>])
            (Suc calls) (py_strip post)"
    using assms(2) first by (rule loop_pass_final)
  with assms(1,2) show ?thesis by (subst run_loop.simps) simp
qed

theorem final_answer_ends_run_witness:
  "outcome (fst (run stub_final sample_loads stub_agent ''2+2?'')) = Inr ''42'' \<and>
   completion_calls (fst (run stub_final sample_loads stub_agent ''2+2?'')) = 1 \<and>
   fst (parse_action sample_loads (stub_final 0 (initial_messages stub_agent ''2+2?''))) = Some ''calculator''"
proof -
  have m: "0 < max_iterations stub_agent" by (simp add: stub_agent_max)
  have r: "stub_final 0 (initial_messages stub_agent ''2+2?'')
             = ''Action: calculator\<newline>'' @ ''Final Answer:'' @ '' 42''"
    by (simp add: stub_final_def)
  have "\<not> py_in ''Final Answer:'' (''Action: calculator\<newline>'' @ ''Final Answer'')"
    by code_simp
  then have f: "\<nexists>p r. ''Action: calculator\<newline>'' @ ''Final Answer'' = p @ ''Final Answer:'' @ r"
    by (simp only: py_in_iff not_False_eq_True)
  have s: "py_strip '' 42'' = ''42''" by code_simp
  have p: "fst (parse_action sample_loads ''Action: calculator\<newline>Final Answer: 42'') = Some ''calculator''"
    by code_simp
  from final_answer_ends_run
         [where call_llm = stub_final and calls = 0 and self = stub_agent and steps = 0
            and messages = "initial_messages stub_agent ''2+2?''" and json_loads = sample_loads
            and pre = "''Action: calculator\<newline>''" and post = "'' 42''", OF m r f] s p
  show ?thesis by (simp add: run_def stub_final_def)
qed



text \<open>
  What follows a pass that continues. On the last unit of the budget the run ends
  exhausted, with the transcript of that pass. With budget left the endpoint is called
  again, on the transcript of that pass, and its answer comes next in the transcript. In
  both cases the completion calls still to come are bounded by the budget that is left
  after this pass.
\<close>

lemma run_loop_after_continue:
  assumes "steps < max_iterations self"
      and "loop_pass call_llm jl self calls messages = Continue ms n"
  shows "(steps + 1 = max_iterations self \<longrightarrow>
            run_loop call_llm jl self messages steps calls =
              \<lparr>outcome = Inr exhausted, transcript = ms, completion_calls = n\<rparr>) \<and>
         (steps + 1 < max_iterations self \<longrightarrow>
            (\<exists>ext. transcript (run_loop call_llm jl self messages steps calls) =
                     ms @ \<lparr>role = ''assistant'', content = call_llm n ms\<rparr> # ext) \<and>
            Suc n \<le> completion_calls (run_loop call_llm jl self messages steps calls)) \<and>
         int (completion_calls (run_loop call_llm jl self messages steps calls))
           \<le> int n + (max_iterations self - (steps + 1))"
proof -
  from assms have eq: "run_loop call_llm jl self messages steps calls =
      run_loop call_llm jl self ms (steps + 1) n"
    by (subst run_loop.simps) simp
  show ?thesis
  proof (intro conjI impI)
    assume "steps + 1 = max_iterations self"
    then show "run_loop call_llm jl self messages steps calls =
        \<lparr>outcome = Inr exhausted, transcript = ms, completion_calls = n\<rparr>"
      using assms(2) by (rule run_loop_last_unit)
  next
    assume lt: "steps + 1 < max_iterations self"
    from run_loop_first_reply [OF lt, of call_llm jl ms n] eq
    show "\<exists>ext. transcript (run_loop call_llm jl self messages steps calls) =
                 ms @ \<lparr>role = ''assistant'', content = call_llm n ms\<rparr> # ext"
      and "Suc n \<le> completion_calls (run_loop call_llm jl self messages steps calls)"
      by auto
  next
    from run_loop_calls_le [of call_llm jl self ms "steps + 1" n] assms(1) eq
    show "int (completion_calls (run_loop call_llm jl self messages steps calls))
           \<le> int n + (max_iterations self - (steps + 1))"
      by simp
  qed
qed

text \<open>
  C6. When the parsed tool name is not a key of the registry, the pass raises nothing: it
  appends the user message \<open>Observation: Tool '<name>' not found.\<close> after the answer and
  continues. The turn has used one unit of the budget: when it was the last one, the run
  ends with the exhaustion message, this observation last in the transcript; when budget
  is left, the endpoint is called again on the transcript that ends with this
  observation, and at most \<open>max_iterations - (steps + 1)\<close> completion calls follow the one
  of this turn.
\<close>

theorem unknown_tool_is_observed:
  assumes "steps < max_iterations self"
      and "\<nexists>pre post. call_llm calls messages = pre @ ''Final Answer:'' @ post"
      and "fst (parse_action json_loads (call_llm calls messages)) = Some tool_name"
      and "tool_name \<noteq> []"
      and "map_of (tools self) tool_name = None"
      and "ms = messages @
             [\<lparr>role = ''assistant'', content = call_llm calls messages\<rparr>,
              \<lparr>role = ''user'',
               content = ''Observation: Tool '' @ [CHR 0x27] @ tool_name @ [CHR 0x27] @ '' not found.''\<rparr>]"
  shows "loop_pass call_llm json_loads self calls messages = Continue ms (Suc calls) \<and>
         (steps + 1 = max_iterations self \<longrightarrow>
            run_loop call_llm json_loads self messages steps calls =
              \<lparr>outcome = Inr exhausted, transcript = ms, completion_calls = Suc calls\<rparr>) \<and>
         (steps + 1 < max_iterations self \<longrightarrow>
            (\<exists>ext. transcript (run_loop call_llm json_loads self messages steps calls) =
                     ms @ \<lparr>role = ''assistant'', content = call_llm (Suc calls) ms\<rparr> # ext) \<and>
            Suc (Suc calls)
              \<le> completion_calls (run_loop call_llm json_loads self messages steps calls)) \<and>
         int (completion_calls (run_loop call_llm json_loads self messages steps calls))
           \<le> int (Suc calls) + (max_iterations self - (steps + 1))"
proof -
  from assms(2) have nf: "\<not> py_in ''Final Answer:'' (call_llm calls messages)"
    by (simp only: py_in_iff not_False_eq_True)
  have "loop_pass call_llm json_loads self calls messages =
          Continue (messages @ [\<lparr>role = ''assistant'', content = call_llm calls messages\<rparr>,
                                observation_message (not_found tool_name)]) (Suc calls)"
    using nf assms(3-5) by (rule loop_pass_unknown_tool)
  then have c: "loop_pass call_llm json_loads self calls messages = Continue ms (Suc calls)"
    by (simp add: assms(6) observation_message_def not_found_def)
  from run_loop_after_continue [OF assms(1) c] c show ?thesis by blast
qed

theorem unknown_tool_is_observed_witness:
  "loop_pass stub_teleport sample_loads stub_agent 9 [] =
     Continue
       [\<lparr>role = ''assistant'', content = stub_teleport 9 []\<rparr>,
        \<lparr>role = ''user'', content = ''Observation: Tool 'teleport' not found.''\<rparr>] 10 \<and>
   run_loop stub_teleport sample_loads stub_agent [] 9 9 =
     \<lparr>outcome = Inr ''I couldn't complete the task within the iteration limit.'',
      transcript =
        [\<lparr>role = ''assistant'', content = stub_teleport 9 []\<rparr>,
         \<lparr>role = ''user'', content = ''Observation: Tool 'teleport' not found.''\<rparr>],
      completion_calls = 10\<rparr> \<and>
   (\<exists>ext. transcript (run_loop stub_teleport sample_loads stub_agent [] 0 0) =
      [\<lparr>role = ''assistant'', content = stub_teleport 0 []\<rparr>,
       \<lparr>role = ''user'', content = ''Observation: Tool 'teleport' not found.''\<rparr>,
       \<lparr>role = ''assistant'', content = stub_teleport 1 []\<rparr>] @ ext) \<and>
   2 \<le> completion_calls (run_loop stub_teleport sample_loads stub_agent [] 0 0)"
proof -
  have "\<not> py_in ''Final Answer:'' (stub_teleport n ms)" for n ms
    unfolding stub_teleport_def by code_simp
  then have f: "\<nexists>pre post. stub_teleport n [] = pre @ ''Final Answer:'' @ post" for n
    by (simp only: py_in_iff not_False_eq_True)
  have p: "fst (parse_action sample_loads (stub_teleport n [])) = Some ''teleport''" for n
    unfolding stub_teleport_def by code_simp
  have ne: "''teleport'' \<noteq> []" by simp
  have s: "stub_teleport n ms = stub_teleport 0 []" for n ms
    by (simp add: stub_teleport_def)
  have m9: "9 < max_iterations stub_agent" and m0: "0 < max_iterations stub_agent"
    by (simp_all add: stub_agent_max)
  from unknown_tool_is_observed
         [where call_llm = stub_teleport and calls = 9 and self = stub_agent and steps = 9
            and messages = "[]" and json_loads = sample_loads and tool_name = "''teleport''",
          OF m9 f p ne stub_agent_tools_teleport refl]
  have last: "loop_pass stub_teleport sample_loads stub_agent 9 [] =
     Continue
       [\<lparr>role = ''assistant'', content = stub_teleport 9 []\<rparr>,
        \<lparr>role = ''user'', content = ''Observation: Tool 'teleport' not found.''\<rparr>] 10"
    and ended: "run_loop stub_teleport sample_loads stub_agent [] 9 9 =
     \<lparr>outcome = Inr ''I couldn't complete the task within the iteration limit.'',
      transcript =
        [\<lparr>role = ''assistant'', content = stub_teleport 9 []\<rparr>,
         \<lparr>role = ''user'', content = ''Observation: Tool 'teleport' not found.''\<rparr>],
      completion_calls = 10\<rparr>"
    by (simp_all add: stub_agent_max exhausted_def)
  from unknown_tool_is_observed
         [where call_llm = stub_teleport and calls = 0 and self = stub_agent and steps = 0
            and messages = "[]" and json_loads = sample_loads and tool_name = "''teleport''",
          OF m0 f p ne stub_agent_tools_teleport refl]
  have "(\<exists>ext. transcript (run_loop stub_teleport sample_loads stub_agent [] 0 0) =
      [\<lparr>role = ''assistant'', content = stub_teleport 0 []\<rparr>,
       \<lparr>role = ''user'', content = ''Observation: Tool 'teleport' not found.''\<rparr>,
       \<lparr>role = ''assistant'', content = stub_teleport 1 []\<rparr>] @ ext) \<and>
   2 \<le> completion_calls (run_loop stub_teleport sample_loads stub_agent [] 0 0)"
    using s [of "Suc 0"] by (simp add: stub_agent_max)
  with last ended show ?thesis by blast
qed

text \<open>
  C7. When the capability of a tool raises an exception with message \<open>msg\<close>, the body of
  \<open>Tool.execute\<close> returns \<open>Error executing <name>: <msg>\<close>, and the call
  \<open>tool.execute(**kwargs)\<close> with keyword arguments none of which is named \<open>self\<close> returns
  that text: nothing is raised at the call. In the loop, when the parsed input is \<open>None\<close>
  or such a dict and the capability of the registered tool raises, the pass appends that
  text as an observation and continues. When it was the last unit of the budget, the run
  ends with the exhaustion message, this observation last in the transcript; when budget
  is left, the endpoint is called again on the transcript that ends with this
  observation, and at most \<open>max_iterations - (steps + 1)\<close> completion calls follow the one
  of this turn.
\<close>

theorem tool_exception_is_observed:
  "(func t w kwargs = Inl msg \<longrightarrow>
      execute t w kwargs = ''Error executing '' @ name t @ '': '' @ msg \<and>
      (''self'' \<notin> fst ` set kwargs \<longrightarrow>
         call_execute t w (PyDict kwargs) = Inr (''Error executing '' @ name t @ '': '' @ msg))) \<and>
   (steps < max_iterations self \<and>
    (\<nexists>pre post. call_llm calls messages = pre @ ''Final Answer:'' @ post) \<and>
    parse_action json_loads (call_llm calls messages) = (Some tool_name, tool_input) \<and>
    tool_name \<noteq> [] \<and>
    map_of (tools self) tool_name = Some t \<and>
    (tool_input = PyNone \<and> kwargs = [] \<or> tool_input = PyDict kwargs) \<and>
    ''self'' \<notin> fst ` set kwargs \<and>
    func t calls kwargs = Inl msg \<and>
    ms = messages @
           [\<lparr>role = ''assistant'', content = call_llm calls messages\<rparr>,
            \<lparr>role = ''user'',
             content = ''Observation: Error executing '' @ name t @ '': '' @ msg\<rparr>] \<longrightarrow>
      loop_pass call_llm json_loads self calls messages = Continue ms (Suc calls) \<and>
      (steps + 1 = max_iterations self \<longrightarrow>
         run_loop call_llm json_loads self messages steps calls =
           \<lparr>outcome = Inr exhausted, transcript = ms, completion_calls = Suc calls\<rparr>) \<and>
      (steps + 1 < max_iterations self \<longrightarrow>
         (\<exists>ext. transcript (run_loop call_llm json_loads self messages steps calls) =
                  ms @ \<lparr>role = ''assistant'', content = call_llm (Suc calls) ms\<rparr> # ext) \<and>
         Suc (Suc calls)
           \<le> completion_calls (run_loop call_llm json_loads self messages steps calls)) \<and>
      int (completion_calls (run_loop call_llm json_loads self messages steps calls))
        \<le> int (Suc calls) + (max_iterations self - (steps + 1)))"
proof (intro conjI impI)
  assume "func t w kwargs = Inl msg"
  then show "execute t w kwargs = ''Error executing '' @ name t @ '': '' @ msg"
    by (simp add: execute_def)
next
  assume "func t w kwargs = Inl msg" and "''self'' \<notin> fst ` set kwargs"
  then show "call_execute t w (PyDict kwargs) = Inr (''Error executing '' @ name t @ '': '' @ msg)"
    by (simp add: call_execute_def execute_def)
next
  assume h: "steps < max_iterations self \<and>
    (\<nexists>pre post. call_llm calls messages = pre @ ''Final Answer:'' @ post) \<and>
    parse_action json_loads (call_llm calls messages) = (Some tool_name, tool_input) \<and>
    tool_name \<noteq> [] \<and>
    map_of (tools self) tool_name = Some t \<and>
    (tool_input = PyNone \<and> kwargs = [] \<or> tool_input = PyDict kwargs) \<and>
    ''self'' \<notin> fst ` set kwargs \<and>
    func t calls kwargs = Inl msg \<and>
    ms = messages @
           [\<lparr>role = ''assistant'', content = call_llm calls messages\<rparr>,
            \<lparr>role = ''user'',
             content = ''Observation: Error executing '' @ name t @ '': '' @ msg\<rparr>]"
  then have nf: "\<not> py_in ''Final Answer:'' (call_llm calls messages)"
    by (simp only: py_in_iff not_False_eq_True)
  from h have lt: "steps < max_iterations self"
    and pa: "parse_action json_loads (call_llm calls messages) = (Some tool_name, tool_input)"
    and ne: "tool_name \<noteq> []"
    and reg: "map_of (tools self) tool_name = Some t"
    and inp: "tool_input = PyNone \<and> kwargs = [] \<or> tool_input = PyDict kwargs"
    and kw: "''self'' \<notin> fst ` set kwargs"
    and ex: "func t calls kwargs = Inl msg"
    and ms: "ms = messages @
           [\<lparr>role = ''assistant'', content = call_llm calls messages\<rparr>,
            \<lparr>role = ''user'',
             content = ''Observation: Error executing '' @ name t @ '': '' @ msg\<rparr>]"
    by blast+
  have "loop_pass call_llm json_loads self calls messages =
          Continue (messages @ [\<lparr>role = ''assistant'', content = call_llm calls messages\<rparr>,
                                observation_message (execute t calls kwargs)]) (Suc calls)"
    using nf pa ne reg inp kw by (rule loop_pass_tool)
  moreover from ex have "execute t calls kwargs = ''Error executing '' @ name t @ '': '' @ msg"
    by (simp add: execute_def)
  ultimately have c: "loop_pass call_llm json_loads self calls messages = Continue ms (Suc calls)"
    by (simp add: ms observation_message_def)
  from run_loop_after_continue [OF lt c] c
  show "loop_pass call_llm json_loads self calls messages = Continue ms (Suc calls)"
    and "steps + 1 = max_iterations self \<Longrightarrow>
         run_loop call_llm json_loads self messages steps calls =
           \<lparr>outcome = Inr exhausted, transcript = ms, completion_calls = Suc calls\<rparr>"
    and "steps + 1 < max_iterations self \<Longrightarrow>
         \<exists>ext. transcript (run_loop call_llm json_loads self messages steps calls) =
                  ms @ \<lparr>role = ''assistant'', content = call_llm (Suc calls) ms\<rparr> # ext"
    and "steps + 1 < max_iterations self \<Longrightarrow>
         Suc (Suc calls)
           \<le> completion_calls (run_loop call_llm json_loads self messages steps calls)"
    and "int (completion_calls (run_loop call_llm json_loads self messages steps calls))
        \<le> int (Suc calls) + (max_iterations self - (steps + 1))"
    by blast+
qed

theorem tool_exception_is_observed_witness:
  \<open>call_execute (Tool ''calculator'' [] (stub_capability ''division by zero'')) 0
     (PyDict [(''expression'', PyStr ''1/0'')])
     = Inr ''Error executing calculator: division by zero'' \<and>
   run_loop stub_divide sample_loads stub_agent [] 9 9 =
     \<lparr>outcome = Inr ''I couldn't complete the task within the iteration limit.'',
      transcript =
        [\<lparr>role = ''assistant'',
          content = ''Action: calculator\<newline>Action Input: {"expression": "1/0"}''\<rparr>,
         \<lparr>role = ''user'',
          content = ''Observation: Error executing calculator: division by zero''\<rparr>],
      completion_calls = 10\<rparr> \<and>
   (\<exists>ext. transcript (run_loop stub_divide sample_loads stub_agent [] 0 0) =
      [\<lparr>role = ''assistant'',
        content = ''Action: calculator\<newline>Action Input: {"expression": "1/0"}''\<rparr>,
       \<lparr>role = ''user'',
        content = ''Observation: Error executing calculator: division by zero''\<rparr>,
       \<lparr>role = ''assistant'',
        content = ''Action: calculator\<newline>Action Input: {"expression": "1/0"}''\<rparr>] @ ext) \<and>
   2 \<le> completion_calls (run_loop stub_divide sample_loads stub_agent [] 0 0)\<close>
proof -
  let ?t = "Tool ''calculator''
       ''Evaluates mathematical expressions. Input: expression (string). Example: calculator(expression='2 + 2 * 5')''
       (stub_capability ''division by zero'')"
  let ?k = "[(''expression'', PyStr ''1/0'')]"
  have e: "func (Tool ''calculator'' [] (stub_capability ''division by zero'')) 0 ?k
             = Inl ''division by zero''"
    by (simp add: Tool_def stub_capability_def)
  have k: "''self'' \<notin> fst ` set ?k" by simp
  from tool_exception_is_observed
         [where t = "Tool ''calculator'' [] (stub_capability ''division by zero'')"
            and w = 0 and kwargs = ?k and msg = "''division by zero''"] e k
  have first: "call_execute (Tool ''calculator'' [] (stub_capability ''division by zero'')) 0
     (PyDict ?k) = Inr ''Error executing calculator: division by zero''"
    by (simp add: Tool_def)
  have "\<not> py_in ''Final Answer:'' (stub_divide n ms)" for n ms
    unfolding stub_divide_def by code_simp
  then have f: "\<nexists>pre post. stub_divide n [] = pre @ ''Final Answer:'' @ post" for n
    by (simp only: py_in_iff not_False_eq_True)
  have p: "parse_action sample_loads (stub_divide n []) = (Some ''calculator'', PyDict ?k)" for n
    unfolding stub_divide_def by code_simp
  have r: "func ?t n ?k = Inl ''division by zero''" for n
    by (simp add: Tool_def stub_capability_def)
  have nm: "name ?t = ''calculator''" by (simp add: Tool_def)
  have m9: "9 < max_iterations stub_agent" and m0: "0 < max_iterations stub_agent"
    by (simp_all add: stub_agent_max)
  from tool_exception_is_observed
         [where call_llm = stub_divide and calls = 9 and self = stub_agent and steps = 9
            and messages = "[]" and json_loads = sample_loads and tool_name = "''calculator''"
            and tool_input = "PyDict ?k" and kwargs = ?k and msg = "''division by zero''"
            and t = ?t
            and ms = "[\<lparr>role = ''assistant'', content = stub_divide 9 []\<rparr>,
                       \<lparr>role = ''user'',
                        content = ''Observation: Error executing '' @ name ?t @ '': ''
                                    @ ''division by zero''\<rparr>]"]
       m9 f [of 9] p [of 9] k r [of 9] stub_agent_calculator
  have ended: "run_loop stub_divide sample_loads stub_agent [] 9 9 =
     \<lparr>outcome = Inr exhausted,
      transcript =
        [\<lparr>role = ''assistant'', content = stub_divide 9 []\<rparr>,
         \<lparr>role = ''user'',
          content = ''Observation: Error executing '' @ name ?t @ '': '' @ ''division by zero''\<rparr>],
      completion_calls = 10\<rparr>"
    by (simp add: stub_agent_max)
  from tool_exception_is_observed
         [where call_llm = stub_divide and calls = 0 and self = stub_agent and steps = 0
            and messages = "[]" and json_loads = sample_loads and tool_name = "''calculator''"
            and tool_input = "PyDict ?k" and kwargs = ?k and msg = "''division by zero''"
            and t = ?t
            and ms = "[\<lparr>role = ''assistant'', content = stub_divide 0 []\<rparr>,
                       \<lparr>role = ''user'',
                        content = ''Observation: Error executing '' @ name ?t @ '': ''
                                    @ ''division by zero''\<rparr>]"]
       m0 f [of 0] p [of 0] k r [of 0] stub_agent_calculator
  have more: "(\<exists>ext. transcript (run_loop stub_divide sample_loads stub_agent [] 0 0) =
        [\<lparr>role = ''assistant'', content = stub_divide 0 []\<rparr>,
         \<lparr>role = ''user'',
          content = ''Observation: Error executing '' @ name ?t @ '': '' @ ''division by zero''\<rparr>]
        @ \<lparr>role = ''assistant'', content = stub_divide (Suc 0)
             [\<lparr>role = ''assistant'', content = stub_divide 0 []\<rparr>,
              \<lparr>role = ''user'',
               content = ''Observation: Error executing '' @ name ?t @ '': ''
                           @ ''division by zero''\<rparr>]\<rparr> # ext) \<and>
      Suc (Suc 0) \<le> completion_calls (run_loop stub_divide sample_loads stub_agent [] 0 0)"
    by (simp add: stub_agent_max)
  from first ended more show ?thesis
    by (simp add: nm stub_divide_def exhausted_def)
qed

text \<open>
  C2 says that \<open>run\<close> always returns a string and never raises. Evaluated on an answer
  whose \<open>Action Input:\<close> decodes to the number 5, for the registered tool \<open>calculator\<close>, the
  call \<open>tool.execute(**tool_input)\<close> raises \<open>TypeError\<close> outside the \<open>try\<close> of
  \<open>Tool.execute\<close>, and the exception leaves \<open>run\<close> after one completion call. The same
  happens for an input dict with a key \<open>self\<close>.
\<close>

theorem run_raises_on_action_input:
  "outcome (fst (run stub_scalar sample_loads stub_agent ''2+2?'')) = Inl TypeError \<and>
   completion_calls (fst (run stub_scalar sample_loads stub_agent ''2+2?'')) = 1 \<and>
   outcome (fst (run stub_self sample_loads stub_agent ''2+2?'')) = Inl TypeError"
  by code_simp




text \<open>
  C5 as stated does not hold: the line \<open>  Action: foo\<close> begins with the marker once it is
  trimmed, but the parser does not trim lines and does not match it.
\<close>

theorem indented_action_line_counterexample:
  "''  Action: foo'' \<in> set (py_split_newline (py_strip ''Thought: go\<newline>  Action: foo'')) \<and>
   startswith (py_strip ''  Action: foo'') ''Action:'' \<and>
   parse_action sample_loads ''Thought: go\<newline>  Action: foo'' = (None, PyNone)"
  by code_simp

text \<open>
  C5, amended. The parser strips the response as a whole, splits it into lines and
  matches each line as it stands: a line that begins with \<open>Action:\<close> sets the name, a
  line that begins with \<open>Action Input:\<close> sets the input, and any other line, whatever it
  contains, changes nothing. So the name is \<open>None\<close> exactly when no line begins with
  \<open>Action:\<close>, and the input is \<open>None\<close> when no line begins with \<open>Action Input:\<close>.
\<close>

theorem markers_match_by_line_prefix:
  "(startswith l ''Action:'' \<longrightarrow>
      parse_line json_loads (action, action_input) l
        = (Some (py_strip (py_replace l ''Action:'' [])), action_input)) \<and>
   (startswith l ''Action Input:'' \<longrightarrow>
      parse_line json_loads (action, action_input) l
        = (action,
           case json_loads (py_strip (py_replace l ''Action Input:'' [])) of
             Some v \<Rightarrow> v
           | None \<Rightarrow> PyDict [(''input'', PyStr (py_strip (py_replace l ''Action Input:'' [])))])) \<and>
   (\<not> startswith l ''Action:'' \<and> \<not> startswith l ''Action Input:'' \<longrightarrow>
      parse_line json_loads (action, action_input) l = (action, action_input)) \<and>
   (fst (parse_action json_loads text) = None \<longleftrightarrow>
      (\<forall>l \<in> set (py_split_newline (py_strip text)). \<not> startswith l ''Action:'')) \<and>
   ((\<forall>l \<in> set (py_split_newline (py_strip text)). \<not> startswith l ''Action Input:'') \<longrightarrow>
      snd (parse_action json_loads text) = PyNone)"
proof (intro conjI impI)
  assume "startswith l ''Action:''"
  then show "parse_line json_loads (action, action_input) l
        = (Some (py_strip (py_replace l ''Action:'' [])), action_input)"
    by (simp add: parse_line_def)
next
  assume a: "startswith l ''Action Input:''"
  then have "\<not> startswith l ''Action:''" by (rule action_input_not_action)
  with a show "parse_line json_loads (action, action_input) l
        = (action,
           case json_loads (py_strip (py_replace l ''Action Input:'' [])) of
             Some v \<Rightarrow> v
           | None \<Rightarrow> PyDict [(''input'', PyStr (py_strip (py_replace l ''Action Input:'' [])))])"
    by (simp add: parse_line_def Let_def split: option.splits)
next
  assume "\<not> startswith l ''Action:'' \<and> \<not> startswith l ''Action Input:''"
  then show "parse_line json_loads (action, action_input) l = (action, action_input)"
    by (simp add: parse_line_def)
next
  show "fst (parse_action json_loads text) = None \<longleftrightarrow>
      (\<forall>l \<in> set (py_split_newline (py_strip text)). \<not> startswith l ''Action:'')"
    by (rule parse_action_name_None_iff)
next
  assume "\<forall>l \<in> set (py_split_newline (py_strip text)). \<not> startswith l ''Action Input:''"
  then show "snd (parse_action json_loads text) = PyNone"
    unfolding parse_action_def by (simp add: foldl_parse_snd_other)
qed

theorem markers_match_by_line_prefix_witness:
  "parse_action sample_loads ''I say Action: foo\<newline>and Action Input: 5'' = (None, PyNone) \<and>
   parse_line sample_loads (None, PyNone) ''I say Action: foo'' = (None, PyNone) \<and>
   parse_line sample_loads (None, PyNone) ''Action: foo'' = (Some ''foo'', PyNone) \<and>
   parse_line sample_loads (None, PyNone) ''Action Input: 5'' = (None, PyInt 5)"
proof -
  have ls: "py_split_newline (py_strip ''I say Action: foo\<newline>and Action Input: 5'')
              = [''I say Action: foo'', ''and Action Input: 5'']"
    by code_simp
  have n: "\<not> startswith ''I say Action: foo'' ''Action:''"
          "\<not> startswith ''I say Action: foo'' ''Action Input:''"
          "\<not> startswith ''and Action Input: 5'' ''Action:''"
          "\<not> startswith ''and Action Input: 5'' ''Action Input:''"
    by code_simp+
  have y: "startswith ''Action: foo'' ''Action:''" "startswith ''Action Input: 5'' ''Action Input:''"
    by code_simp+
  have v: "py_strip (py_replace ''Action: foo'' ''Action:'' []) = ''foo''"
          "py_strip (py_replace ''Action Input: 5'' ''Action Input:'' []) = ''5''"
          "sample_loads ''5'' = Some (PyInt 5)"
    by code_simp+
  from markers_match_by_line_prefix
         [of "''I say Action: foo''" sample_loads None PyNone
             "''I say Action: foo\<newline>and Action Input: 5''"] ls n
  have a: "parse_line sample_loads (None, PyNone) ''I say Action: foo'' = (None, PyNone)"
    and b: "parse_action sample_loads ''I say Action: foo\<newline>and Action Input: 5'' = (None, PyNone)"
    by (simp_all add: prod_eq_iff)
  from markers_match_by_line_prefix [of "''Action: foo''" sample_loads None PyNone "[]"] y v
  have c: "parse_line sample_loads (None, PyNone) ''Action: foo'' = (Some ''foo'', PyNone)"
    by simp
  from markers_match_by_line_prefix [of "''Action Input: 5''" sample_loads None PyNone "[]"] y v
  have d: "parse_line sample_loads (None, PyNone) ''Action Input: 5'' = (None, PyInt 5)"
    by simp
  from a b c d show ?thesis by blast
qed

text \<open>
  C9. The parser scans every line and a later match overwrites an earlier one: the name
  comes from the last line that begins with \<open>Action:\<close>, the input from the last line that
  begins with \<open>Action Input:\<close>.
\<close>

theorem last_marker_line_wins:
  assumes "py_split_newline (py_strip text) = before @ line # rest"
  shows "(startswith line ''Action:'' \<and> (\<forall>l \<in> set rest. \<not> startswith l ''Action:'') \<longrightarrow>
            fst (parse_action json_loads text)
              = Some (py_strip (py_replace line ''Action:'' []))) \<and>
         (startswith line ''Action Input:'' \<and>
          (\<forall>l \<in> set rest. \<not> startswith l ''Action Input:'') \<longrightarrow>
            snd (parse_action json_loads text)
              = (case json_loads (py_strip (py_replace line ''Action Input:'' [])) of
                   Some v \<Rightarrow> v
                 | None \<Rightarrow>
                     PyDict [(''input'', PyStr (py_strip (py_replace line ''Action Input:'' [])))]))"
  unfolding parse_action_def assms
  by (intro conjI impI; elim conjE) (rule foldl_parse_fst_last foldl_parse_snd_last; assumption)+

theorem last_marker_line_wins_witness:
  \<open>parse_action sample_loads
     ''Action: foo\<newline>Action Input: {"x": 1}\<newline>Action: bar\<newline>Action Input: 5''
     = (Some ''bar'', PyInt 5)\<close>
proof -
  have l1: \<open>py_split_newline (py_strip
              ''Action: foo\<newline>Action Input: {"x": 1}\<newline>Action: bar\<newline>Action Input: 5'')
            = [''Action: foo'', ''Action Input: {"x": 1}''] @ ''Action: bar'' # [''Action Input: 5'']\<close>
    by code_simp
  have l2: \<open>py_split_newline (py_strip
              ''Action: foo\<newline>Action Input: {"x": 1}\<newline>Action: bar\<newline>Action Input: 5'')
            = [''Action: foo'', ''Action Input: {"x": 1}'', ''Action: bar''] @ ''Action Input: 5'' # []\<close>
    by code_simp
  have y: "startswith ''Action: bar'' ''Action:''" "startswith ''Action Input: 5'' ''Action Input:''"
          "\<not> startswith ''Action Input: 5'' ''Action:''"
    by code_simp+
  have v: "py_strip (py_replace ''Action: bar'' ''Action:'' []) = ''bar''"
          "py_strip (py_replace ''Action Input: 5'' ''Action Input:'' []) = ''5''"
          "sample_loads ''5'' = Some (PyInt 5)"
    by code_simp+
  from last_marker_line_wins [OF l1, of sample_loads] y v
  have a: \<open>fst (parse_action sample_loads
     ''Action: foo\<newline>Action Input: {"x": 1}\<newline>Action: bar\<newline>Action Input: 5'') = Some ''bar''\<close>
    by simp
  from last_marker_line_wins [OF l2, of sample_loads] y v
  have b: \<open>snd (parse_action sample_loads
     ''Action: foo\<newline>Action Input: {"x": 1}\<newline>Action: bar\<newline>Action Input: 5'') = PyInt 5\<close>
    by simp
  from a b show ?thesis by (simp add: prod_eq_iff)
qed



end
